theory Spec2Isabelle
  imports Complex_Main "HOL-Library.AList" "HOL-Library.Multiset"
begin

section \<open>Python values\<close>

text \<open>
  A Python float is modelled by its four kinds of value. Finite values are idealised as
  real numbers (no rounding, no overflow to infinity); the infinities and NaN follow
  IEEE 754: NaN is absorbing in arithmetic and every ordered comparison with NaN is false.
\<close>

datatype pyfloat = Fin real | PInf | NInf | NaN

text \<open>
  A cell of the trades table holds a number, or an object that is not a number. A NULL of
  the database in a column of numbers arrives as the float NaN, so a missing number is
  \<open>PyFloat NaN\<close>; a column that holds text (or nothing but NULLs) arrives as objects, its
  cells strings or \<open>None\<close>.
\<close>

datatype pyval = PyFloat pyfloat | PyStr string | PyNone

datatype error = TypeError | ZeroDivisionError

definition inf_times :: "bool \<Rightarrow> real \<Rightarrow> pyfloat" where
  "inf_times pos a = (if a = 0 then NaN else if (0 < a) = pos then PInf else NInf)"

fun fmul :: "pyfloat \<Rightarrow> pyfloat \<Rightarrow> pyfloat" where
  "fmul NaN y = NaN"
| "fmul x NaN = NaN"
| "fmul (Fin a) (Fin b) = Fin (a * b)"
| "fmul (Fin a) PInf = inf_times True a"
| "fmul (Fin a) NInf = inf_times False a"
| "fmul PInf (Fin b) = inf_times True b"
| "fmul NInf (Fin b) = inf_times False b"
| "fmul PInf PInf = PInf"
| "fmul PInf NInf = NInf"
| "fmul NInf PInf = NInf"
| "fmul NInf NInf = PInf"

fun fadd :: "pyfloat \<Rightarrow> pyfloat \<Rightarrow> pyfloat" where
  "fadd NaN y = NaN"
| "fadd x NaN = NaN"
| "fadd (Fin a) (Fin b) = Fin (a + b)"
| "fadd (Fin a) PInf = PInf"
| "fadd (Fin a) NInf = NInf"
| "fadd PInf (Fin b) = PInf"
| "fadd NInf (Fin b) = NInf"
| "fadd PInf PInf = PInf"
| "fadd NInf NInf = NInf"
| "fadd PInf NInf = NaN"
| "fadd NInf PInf = NaN"

fun fneg :: "pyfloat \<Rightarrow> pyfloat" where
  "fneg (Fin a) = Fin (- a)"
| "fneg PInf = NInf"
| "fneg NInf = PInf"
| "fneg NaN = NaN"

definition fsub :: "pyfloat \<Rightarrow> pyfloat \<Rightarrow> pyfloat" where
  "fsub x y = fadd x (fneg y)"

fun fabs :: "pyfloat \<Rightarrow> pyfloat" where
  "fabs (Fin a) = Fin \<bar>a\<bar>"
| "fabs PInf = PInf"
| "fabs NInf = PInf"
| "fabs NaN = NaN"

fun flt :: "pyfloat \<Rightarrow> pyfloat \<Rightarrow> bool" where
  "flt (Fin a) (Fin b) = (a < b)"
| "flt (Fin a) PInf = True"
| "flt NInf (Fin b) = True"
| "flt NInf PInf = True"
| "flt x y = False"

definition fgt :: "pyfloat \<Rightarrow> pyfloat \<Rightarrow> bool" where
  "fgt x y = flt y x"

text \<open>\<open>round(x, n)\<close>: to \<open>n\<close> decimals, ties to even; infinities and NaN pass through.\<close>

definition round_half_even :: "real \<Rightarrow> int" where
  "round_half_even x =
     (let f = \<lfloor>x\<rfloor>; d = x - of_int f
      in if d < 1 / 2 then f else if 1 / 2 < d then f + 1 else if even f then f else f + 1)"

fun py_round :: "pyfloat \<Rightarrow> nat \<Rightarrow> pyfloat" where
  "py_round (Fin x) n = Fin (of_int (round_half_even (x * 10 ^ n)) / 10 ^ n)"
| "py_round x n = x"

text \<open>
  \<open>v * self.scale_ratio\<close> for a table cell \<open>v\<close> and the float \<open>scale_ratio\<close>:
  a string or \<open>None\<close> times a float raises \<open>TypeError\<close>.
\<close>

definition py_mul :: "pyval \<Rightarrow> pyfloat \<Rightarrow> error + pyfloat" where
  "py_mul v r = (case v of PyFloat x \<Rightarrow> Inr (fmul x r) | PyStr s \<Rightarrow> Inl TypeError | PyNone \<Rightarrow> Inl TypeError)"

text \<open>\<open>a / b\<close> on numbers: division by zero raises \<open>ZeroDivisionError\<close>.\<close>

definition py_truediv :: "real \<Rightarrow> real \<Rightarrow> error + real" where
  "py_truediv a b = (if b = 0 then Inl ZeroDivisionError else Inr (a / b))"

section \<open>The engine\<close>

record engine =
  scale_ratio :: pyfloat
  min_shares :: pyfloat
  max_position_usd :: pyfloat
  copy_probability :: pyfloat
  positions :: "(string \<times> pyfloat) list"
  trades_executed :: nat
  trades_skipped :: nat
  total_volume_usd :: pyfloat
  entry_prices :: "(string \<times> (pyfloat \<times> pyval) list) list"

text \<open>
  \<open>BacktestEngine.__init__\<close>: the four parameters are stored as given; the state starts
  empty. The dictionaries are association lists in insertion order.
\<close>

definition BacktestEngine_init :: "pyfloat \<Rightarrow> pyfloat \<Rightarrow> pyfloat \<Rightarrow> pyfloat \<Rightarrow> engine" where
  "BacktestEngine_init sr ms mp cp =
     \<lparr>scale_ratio = sr, min_shares = ms, max_position_usd = mp, copy_probability = cp,
      positions = [], trades_executed = 0, trades_skipped = 0, total_volume_usd = Fin 0,
      entry_prices = []\<rparr>"

text \<open>The command line's defaults: scale 1.0, 10 shares, 1000 USD, probability 1.0.\<close>

definition default_engine :: engine where
  "default_engine = BacktestEngine_init (Fin 1) (Fin 10) (Fin 1000) (Fin 1)"

text \<open>
  The global generator of \<open>np.random\<close>: the sequence of samples it will return, and in
  the state of a run the number of samples drawn so far.
\<close>

type_synonym rng = "nat \<Rightarrow> real"

definition unit_interval :: "rng \<Rightarrow> bool" where
  "unit_interval g = (\<forall>n. 0 \<le> g n \<and> g n < 1)"

text \<open>
  The reason returned by \<open>should_copy\<close> is a formatted string; it is modelled by its
  template and the values it interpolates.
\<close>

datatype reason =
    COPY
  | SKIP_min_shares pyfloat pyfloat
  | SKIP_max_position pyfloat pyfloat
  | SKIP_probability pyfloat

definition should_copy ::
  "engine \<Rightarrow> rng \<Rightarrow> nat \<Rightarrow> pyval \<Rightarrow> pyval \<Rightarrow> error + ((bool \<times> reason) \<times> nat)" where
  "should_copy self g n whale_shares whale_usd =
     (case py_mul whale_shares (scale_ratio self) of
        Inl e \<Rightarrow> Inl e
      | Inr our_shares \<Rightarrow>
          if flt our_shares (min_shares self)
          then Inr ((False, SKIP_min_shares our_shares (min_shares self)), n)
          else (case py_mul whale_usd (scale_ratio self) of
                  Inl e \<Rightarrow> Inl e
                | Inr our_usd \<Rightarrow>
                    if fgt our_usd (max_position_usd self)
                    then Inr ((False, SKIP_max_position our_usd (max_position_usd self)), n)
                    else if fgt (Fin (g n)) (copy_probability self)
                    then Inr ((False, SKIP_probability (fmul (copy_probability self) (Fin 100))), Suc n)
                    else Inr ((True, COPY), Suc n)))"

text \<open>\<open>self.positions.get(token_id, 0)\<close> and the lots of a token (none when absent).\<close>

definition get_position :: "engine \<Rightarrow> string \<Rightarrow> pyfloat" where
  "get_position self tok = (case map_of (positions self) tok of None \<Rightarrow> Fin 0 | Some v \<Rightarrow> v)"

definition get_lots :: "engine \<Rightarrow> string \<Rightarrow> (pyfloat \<times> pyval) list" where
  "get_lots self tok = (case map_of (entry_prices self) tok of None \<Rightarrow> [] | Some l \<Rightarrow> l)"

definition execute_trade ::
  "engine \<Rightarrow> string \<Rightarrow> string \<Rightarrow> pyval \<Rightarrow> pyval \<Rightarrow> pyval \<Rightarrow> error + engine" where
  "execute_trade self tok sd shares price usd =
     (case py_mul shares (scale_ratio self) of
        Inl e \<Rightarrow> Inl e
      | Inr scaled_shares \<Rightarrow>
          (case py_mul usd (scale_ratio self) of
             Inl e \<Rightarrow> Inl e
           | Inr scaled_usd \<Rightarrow>
               let self1 =
                 (if sd = ''BUY''
                  then self\<lparr>positions :=
                              AList.update tok (fadd (get_position self tok) scaled_shares) (positions self),
                            entry_prices :=
                              AList.update tok (get_lots self tok @ [(scaled_shares, price)]) (entry_prices self)\<rparr>
                  else self\<lparr>positions :=
                              AList.update tok (fsub (get_position self tok) scaled_shares) (positions self)\<rparr>)
               in Inr (self1\<lparr>trades_executed := trades_executed self1 + 1,
                              total_volume_usd := fadd (total_volume_usd self1) scaled_usd\<rparr>)))"

section \<open>The run\<close>

record event =
  timestamp_ms :: int
  token_id :: string
  side :: string
  whale_shares :: pyval
  whale_price :: pyval
  whale_usd :: pyval

datatype action = EXECUTED | REASON reason

record log_entry =
  log_timestamp_ms :: int
  log_token_id :: string
  log_side :: string
  log_whale_shares :: pyval
  log_our_shares :: pyfloat
  log_price :: pyval
  log_action :: action

record run_state =
  eng :: engine
  draws :: nat
  execution_log :: "log_entry list"

definition entry_of :: "event \<Rightarrow> pyfloat \<Rightarrow> action \<Rightarrow> log_entry" where
  "entry_of row our act =
     \<lparr>log_timestamp_ms = timestamp_ms row,
      log_token_id = take 20 (token_id row) @ ''...'',
      log_side = side row,
      log_whale_shares = whale_shares row,
      log_our_shares = our,
      log_price = whale_price row,
      log_action = act\<rparr>"

text \<open>One iteration of the loop of \<open>run_backtest\<close>.\<close>

definition process_row :: "rng \<Rightarrow> run_state \<Rightarrow> event \<Rightarrow> error + run_state" where
  "process_row g st row =
     (case should_copy (eng st) g (draws st) (whale_shares row) (whale_usd row) of
        Inl e \<Rightarrow> Inl e
      | Inr ((copy, why), n') \<Rightarrow>
          if copy
          then (case execute_trade (eng st) (token_id row) (side row)
                       (whale_shares row) (whale_price row) (whale_usd row) of
                  Inl e \<Rightarrow> Inl e
                | Inr self' \<Rightarrow>
                    (case py_mul (whale_shares row) (scale_ratio self') of
                       Inl e \<Rightarrow> Inl e
                     | Inr our \<Rightarrow>
                         Inr \<lparr>eng = self', draws = n',
                              execution_log = execution_log st @ [entry_of row our EXECUTED]\<rparr>))
          else Inr \<lparr>eng = (eng st)\<lparr>trades_skipped := trades_skipped (eng st) + 1\<rparr>, draws = n',
                    execution_log = execution_log st @ [entry_of row (Fin 0) (REASON why)]\<rparr>)"

fun run_loop :: "rng \<Rightarrow> event list \<Rightarrow> run_state \<Rightarrow> error + run_state" where
  "run_loop g [] st = Inr st"
| "run_loop g (row # rows) st =
     (case process_row g st row of Inl e \<Rightarrow> Inl e | Inr st' \<Rightarrow> run_loop g rows st')"

text \<open>
  \<open>trades_df.sort_values("timestamp_ms")\<close> is the library's sort with its default
  algorithm, a quicksort: the rows come back as a permutation in ascending order of the
  timestamp, and nothing is promised on the order of rows with equal timestamps. The sort is
  therefore a parameter of the run, and this is all that is known of it.
\<close>

definition sorts_by_timestamp :: "(event list \<Rightarrow> event list) \<Rightarrow> bool" where
  "sorts_by_timestamp srt = (\<forall>df. mset (srt df) = mset df \<and> sorted (map timestamp_ms (srt df)))"

record result =
  res_total_whale_trades :: nat
  res_trades_executed :: nat
  res_trades_skipped :: nat
  res_execution_rate :: real
  res_total_volume_usd :: pyfloat
  res_open_positions :: nat
  res_positions :: "(string \<times> pyfloat) list"
  res_strategy_params :: "pyfloat \<times> pyfloat \<times> pyfloat \<times> pyfloat"
  res_execution_log :: "log_entry list"

definition is_open :: "pyfloat \<Rightarrow> bool" where
  "is_open p = fgt (fabs p) (Fin (1 / 10000))"

text \<open>\<open>xs[-20:]\<close>: the last 20 elements, all of them when there are fewer.\<close>

definition last20 :: "'a list \<Rightarrow> 'a list" where
  "last20 xs = drop (length xs - 20) xs"

definition start :: "engine \<Rightarrow> nat \<Rightarrow> run_state" where
  "start self n = \<lparr>eng = self, draws = n, execution_log = []\<rparr>"

text \<open>
  \<open>self.trades_executed / len(trades_df) * 100 if len(trades_df) > 0 else 0\<close>: the division
  is evaluated only under the guard.
\<close>

definition execution_rate :: "nat \<Rightarrow> nat \<Rightarrow> error + real" where
  "execution_rate executed len =
     (if len > 0
      then (case py_truediv (real executed) (real len) of
              Inl e \<Rightarrow> Inl e
            | Inr q \<Rightarrow> Inr (q * 100))
      else Inr 0)"

text \<open>The dictionary that \<open>run_backtest\<close> returns, or the exception of its evaluation.\<close>

definition summary :: "nat \<Rightarrow> run_state \<Rightarrow> error + result" where
  "summary len st =
     (let self = eng st in
      case execution_rate (trades_executed self) len of
        Inl e \<Rightarrow> Inl e
      | Inr rate \<Rightarrow>
          Inr \<lparr>res_total_whale_trades = len,
               res_trades_executed = trades_executed self,
               res_trades_skipped = trades_skipped self,
               res_execution_rate = rate,
               res_total_volume_usd = py_round (total_volume_usd self) 2,
               res_open_positions = length (filter is_open (map snd (positions self))),
               res_positions =
                 map (\<lambda>(k, v). (k, py_round v 4)) (filter (\<lambda>(k, v). is_open v) (positions self)),
               res_strategy_params =
                 (scale_ratio self, min_shares self, max_position_usd self, copy_probability self),
               res_execution_log = last20 (execution_log st)\<rparr>)"

text \<open>
  \<open>run_backtest\<close> on an engine, with the library's sort \<open>sort_values\<close> and the generator
  having drawn \<open>n\<close> samples so far: the result, or the exception that escapes.
\<close>

definition run_backtest ::
  "(event list \<Rightarrow> event list) \<Rightarrow> engine \<Rightarrow> rng \<Rightarrow> nat \<Rightarrow> event list \<Rightarrow> error + result" where
  "run_backtest sort_values self g n trades_df =
     (let df = sort_values trades_df in
      case run_loop g df (start self n) of
        Inl e \<Rightarrow> Inl e
      | Inr st \<Rightarrow> summary (length df) st)"

section \<open>Predicates and sample data for the properties\<close>

definition is_num :: "pyval \<Rightarrow> bool" where
  "is_num v = (case v of PyFloat x \<Rightarrow> True | PyStr s \<Rightarrow> False | PyNone \<Rightarrow> False)"

text \<open>A row whose size and USD value are numbers: the two cells the engine computes with.\<close>

definition numeric_row :: "event \<Rightarrow> bool" where
  "numeric_row row = (is_num (whale_shares row) \<and> is_num (whale_usd row))"

definition numeric_feed :: "event list \<Rightarrow> bool" where
  "numeric_feed evs = list_all numeric_row evs"

text \<open>
  The name under which the log records a token, \<open>token_id[:20] + "..."\<close>, and the signed
  sum of the copied shares of the executed log entries recorded under the name of a token,
  summed from \<open>z\<close> in log order as Python's \<open>sum\<close> does: a BUY counts positive, any other
  side negative.
\<close>

definition display_id :: "string \<Rightarrow> string" where
  "display_id tok = take 20 tok @ ''...''"

definition executed_for :: "string \<Rightarrow> log_entry \<Rightarrow> bool" where
  "executed_for tok e = (log_token_id e = display_id tok \<and> log_action e = EXECUTED)"

definition signed_copied :: "log_entry \<Rightarrow> pyfloat" where
  "signed_copied e = (if log_side e = ''BUY'' then log_our_shares e else fneg (log_our_shares e))"

definition log_signed_sum :: "string \<Rightarrow> log_entry list \<Rightarrow> pyfloat \<Rightarrow> pyfloat" where
  "log_signed_sum tok lg z = foldl fadd z (map signed_copied (filter (executed_for tok) lg))"

text \<open>No row of the table is of another token that the log records under the name of \<open>tok\<close>.\<close>

definition no_name_clash :: "string \<Rightarrow> event list \<Rightarrow> bool" where
  "no_name_clash tok evs =
     list_all (\<lambda>row. display_id (token_id row) = display_id tok \<longrightarrow> token_id row = tok) evs"

text \<open>
  What a log entry says of the row it was written for: the row's fields, and as copied
  shares the scaled size when the trade was executed, 0 when it was skipped.
\<close>

definition logged :: "pyfloat \<Rightarrow> event \<Rightarrow> log_entry \<Rightarrow> bool" where
  "logged sr row e =
     (e = entry_of row (log_our_shares e) (log_action e)
      \<and> (if log_action e = EXECUTED then py_mul (whale_shares row) sr = Inr (log_our_shares e)
         else log_our_shares e = Fin 0))"

definition buy_A :: event where
  "buy_A = \<lparr>timestamp_ms = 1, token_id = ''A'', side = ''BUY'', whale_shares = PyFloat (Fin 100),
            whale_price = PyFloat (Fin (1 / 2)), whale_usd = PyFloat (Fin 50)\<rparr>"

definition buy_B_small :: event where
  "buy_B_small = \<lparr>timestamp_ms = 2, token_id = ''B'', side = ''BUY'', whale_shares = PyFloat (Fin 5),
            whale_price = PyFloat (Fin 1), whale_usd = PyFloat (Fin 5)\<rparr>"

definition sell_A :: event where
  "sell_A = \<lparr>timestamp_ms = 3, token_id = ''A'', side = ''SELL'', whale_shares = PyFloat (Fin 40),
            whale_price = PyFloat (Fin (3 / 5)), whale_usd = PyFloat (Fin 24)\<rparr>"

definition demo_feed :: "event list" where
  "demo_feed = [buy_A, buy_B_small, sell_A]"

definition half :: rng where
  "half = (\<lambda>n. 1 / 2)"

text \<open>
  A row whose size is a number that is not below 0 (NaN, which no comparison finds below 0,
  included), and a table all of whose rows are so and have a number as USD value.
\<close>

definition nonneg_size :: "event \<Rightarrow> bool" where
  "nonneg_size row = (case whale_shares row of PyFloat s \<Rightarrow> \<not> flt s (Fin 0) | PyStr x \<Rightarrow> False | PyNone \<Rightarrow> False)"

definition full_copy_feed :: "event list \<Rightarrow> bool" where
  "full_copy_feed evs = list_all (\<lambda>row. nonneg_size row \<and> is_num (whale_usd row)) evs"

text \<open>
  The last \<open>K\<close> entries of a log, in the log's order, as the specification words it.
\<close>

definition spec_log_tail :: "nat \<Rightarrow> 'a list \<Rightarrow> 'a list" where
  "spec_log_tail K xs = rev (take K (rev xs))"

text \<open>
  The configurations that the specification calls configuration errors: a negative
  \<open>scale_ratio\<close>, a \<open>copy_probability\<close> outside \<open>[0, 1]\<close>, a negative threshold. The engine
  has no such check; the predicate only names these configurations.
\<close>

definition config_error :: "pyfloat \<Rightarrow> pyfloat \<Rightarrow> pyfloat \<Rightarrow> pyfloat \<Rightarrow> bool" where
  "config_error sr ms mp cp =
     (flt sr (Fin 0) \<or> flt cp (Fin 0) \<or> fgt cp (Fin 1) \<or> flt ms (Fin 0) \<or> flt mp (Fin 0))"

text \<open>
  More sample rows and tables: a negative size, a missing size, a size that is text, two
  tokens with the same first 20 characters, a row with the timestamp of \<open>buy_A\<close>, the
  generator that returns 0.0, and a table of 21 rows.
\<close>

definition negative_size :: event where
  "negative_size = \<lparr>timestamp_ms = 1, token_id = ''A'', side = ''BUY'', whale_shares = PyFloat (Fin (- 5)),
            whale_price = PyFloat (Fin 1), whale_usd = PyFloat (Fin 5)\<rparr>"

definition nan_size :: event where
  "nan_size = \<lparr>timestamp_ms = 2, token_id = ''B'', side = ''BUY'', whale_shares = PyFloat NaN,
            whale_price = PyFloat (Fin 1), whale_usd = PyFloat (Fin 5)\<rparr>"

definition text_size :: event where
  "text_size = \<lparr>timestamp_ms = 2, token_id = ''B'', side = ''BUY'', whale_shares = PyStr ''n/a'',
            whale_price = PyFloat (Fin 1), whale_usd = PyFloat (Fin 5)\<rparr>"

definition buy_long1 :: event where
  "buy_long1 = \<lparr>timestamp_ms = 1, token_id = ''AAAAAAAAAAAAAAAAAAAA1'', side = ''BUY'',
            whale_shares = PyFloat (Fin 100), whale_price = PyFloat (Fin (1 / 2)),
            whale_usd = PyFloat (Fin 50)\<rparr>"

definition buy_long2 :: event where
  "buy_long2 = \<lparr>timestamp_ms = 2, token_id = ''AAAAAAAAAAAAAAAAAAAA2'', side = ''BUY'',
            whale_shares = PyFloat (Fin 30), whale_price = PyFloat (Fin (1 / 2)),
            whale_usd = PyFloat (Fin 15)\<rparr>"

definition buy_B_tie :: event where
  "buy_B_tie = \<lparr>timestamp_ms = 1, token_id = ''B'', side = ''BUY'', whale_shares = PyFloat (Fin 20),
            whale_price = PyFloat (Fin 1), whale_usd = PyFloat (Fin 20)\<rparr>"

definition zero :: rng where
  "zero = (\<lambda>n. 0)"

definition positive_samples :: "rng \<Rightarrow> bool" where
  "positive_samples g = (\<forall>n. 0 < g n)"

text \<open>
  Two sorts that meet \<open>sorts_by_timestamp\<close>: the stable one, and one that returns rows with
  equal timestamps in the reverse of their order in the table.
\<close>

definition stable_sort :: "event list \<Rightarrow> event list" where
  "stable_sort df = sort_key timestamp_ms df"

definition sort_ties_reversed :: "event list \<Rightarrow> event list" where
  "sort_ties_reversed df = sort_key timestamp_ms (rev df)"

definition five_small :: "event list" where
  "five_small = [buy_B_small, buy_B_small, buy_B_small, buy_B_small, buy_B_small]"

definition feed21 :: "event list" where
  "feed21 = five_small @ five_small @ five_small @ five_small @ [buy_B_small]"

section \<open>Basic facts\<close>

lemmas demo_defs = demo_feed_def buy_A_def buy_B_small_def sell_A_def half_def

lemmas run_defs = run_backtest_def stable_sort_def start_def process_row_def should_copy_def
  BacktestEngine_init_def default_engine_def py_mul_def fgt_def execute_trade_def get_position_def
  get_lots_def fsub_def entry_of_def summary_def execution_rate_def py_truediv_def last20_def
  is_open_def round_half_even_def Let_def numeric_feed_def numeric_row_def is_num_def

lemma stable_sort_sorts: "sorts_by_timestamp stable_sort"
  by (simp add: sorts_by_timestamp_def stable_sort_def)

lemma sort_ties_reversed_sorts: "sorts_by_timestamp sort_ties_reversed"
  by (simp add: sorts_by_timestamp_def sort_ties_reversed_def)

lemma sorted_set: "sorts_by_timestamp srt \<Longrightarrow> set (srt df) = set df"
  by (metis sorts_by_timestamp_def mset_eq_setD)

lemma sorted_length: "sorts_by_timestamp srt \<Longrightarrow> length (srt df) = length df"
  by (metis sorts_by_timestamp_def mset_eq_length)

lemma filter_key_single:
  assumes "distinct (map f xs)" and "k \<in> set xs"
  shows "filter (\<lambda>x. f k = f x) xs = [k]"
  using assms
proof (induction xs)
  case Nil
  then show ?case by simp
next
  case (Cons a xs)
  show ?case
  proof (cases "a = k")
    case True
    with Cons.prems(1) have "\<forall>x \<in> set xs. f k \<noteq> f x" by auto
    then have "filter (\<lambda>x. f k = f x) xs = []" by (simp add: filter_empty_conv)
    with True show ?thesis by simp
  next
    case False
    with Cons.prems have k: "k \<in> set xs" and d: "distinct (map f xs)" and "f a \<noteq> f k"
      by auto
    with Cons.IH [OF d k] show ?thesis by auto
  qed
qed

lemma sort_strictly_ascending:
  assumes srt: "sorts_by_timestamp srt" and asc: "sorted_wrt (<) (map timestamp_ms df)"
  shows "srt df = df"
proof -
  from asc have s: "sorted (map timestamp_ms df)" and d: "distinct (map timestamp_ms df)"
    by (simp_all add: strict_sorted_iff)
  from srt have m: "mset (srt df) = mset df" and s': "sorted (map timestamp_ms (srt df))"
    by (simp_all add: sorts_by_timestamp_def)
  from m have "mset (map timestamp_ms (srt df)) = mset (map timestamp_ms df)" by simp
  then have d': "distinct (map timestamp_ms (srt df))"
    using d by (metis mset_eq_imp_distinct_iff)
  have "sort_key timestamp_ms df = srt df"
  proof (rule properties_for_sort_key [OF m _ s'])
    fix k
    assume k: "k \<in> set (srt df)"
    then have "k \<in> set df" using sorted_set [OF srt] by simp
    from filter_key_single [OF d' k] filter_key_single [OF d this]
    show "filter (\<lambda>x. timestamp_ms k = timestamp_ms x) (srt df)
          = filter (\<lambda>x. timestamp_ms k = timestamp_ms x) df" by simp
  qed
  then show ?thesis using s by (simp add: sort_key_id_if_sorted)
qed

lemma py_mul_num: "is_num v \<Longrightarrow> \<exists>x. py_mul v r = Inr x"
  by (cases v) (simp_all add: is_num_def py_mul_def)

lemma py_mul_not_num: "\<not> is_num v \<Longrightarrow> py_mul v r = Inl TypeError"
  by (cases v) (simp_all add: is_num_def py_mul_def)

lemma py_mul_Inr_num: "py_mul v r = Inr x \<Longrightarrow> is_num v"
  by (cases v) (simp_all add: is_num_def py_mul_def)

lemma should_copy_True:
  assumes "should_copy self g n sh usd = Inr ((True, why), n')"
  shows "why = COPY \<and> n' = Suc n \<and> (\<exists>a b. py_mul sh (scale_ratio self) = Inr a \<and> py_mul usd (scale_ratio self) = Inr b)"
  using assms by (auto simp: should_copy_def split: sum.splits if_splits)

lemma should_copy_num:
  assumes "is_num sh" "is_num usd"
  shows "\<exists>c why n'. should_copy self g n sh usd = Inr ((c, why), n')"
proof -
  obtain a where a: "py_mul sh (scale_ratio self) = Inr a" using py_mul_num [OF assms(1)] by blast
  obtain b where b: "py_mul usd (scale_ratio self) = Inr b" using py_mul_num [OF assms(2)] by blast
  show ?thesis by (auto simp: should_copy_def a b)
qed

lemma execute_trade_fields:
  assumes "execute_trade self tok sd sh pr usd = Inr self'"
  shows "trades_executed self' = Suc (trades_executed self)"
    and "trades_skipped self' = trades_skipped self"
    and "scale_ratio self' = scale_ratio self"
    and "min_shares self' = min_shares self"
    and "max_position_usd self' = max_position_usd self"
    and "copy_probability self' = copy_probability self"
  using assms by (auto simp: execute_trade_def Let_def split: sum.splits if_splits)

lemma execute_trade_total:
  assumes "py_mul sh (scale_ratio self) = Inr a" "py_mul usd (scale_ratio self) = Inr b"
  shows "\<exists>self'. execute_trade self tok sd sh pr usd = Inr self'"
  using assms by (simp add: execute_trade_def Let_def)

lemma process_row_cases:
  assumes "process_row g st row = Inr st'"
  shows "(\<exists>our. py_mul (whale_shares row) (scale_ratio (eng st)) = Inr our
           \<and> should_copy (eng st) g (draws st) (whale_shares row) (whale_usd row) = Inr ((True, COPY), Suc (draws st))
           \<and> execute_trade (eng st) (token_id row) (side row) (whale_shares row) (whale_price row) (whale_usd row) = Inr (eng st')
           \<and> draws st' = Suc (draws st)
           \<and> execution_log st' = execution_log st @ [entry_of row our EXECUTED])
       \<or> (\<exists>why n'. should_copy (eng st) g (draws st) (whale_shares row) (whale_usd row) = Inr ((False, why), n')
           \<and> eng st' = (eng st)\<lparr>trades_skipped := trades_skipped (eng st) + 1\<rparr>
           \<and> draws st' = n'
           \<and> execution_log st' = execution_log st @ [entry_of row (Fin 0) (REASON why)])"
proof -
  obtain c why n' where sc: "should_copy (eng st) g (draws st) (whale_shares row) (whale_usd row) = Inr ((c, why), n')"
    using assms by (auto simp: process_row_def split: sum.splits)
  show ?thesis
  proof (cases c)
    case True
    from sc True have "should_copy (eng st) g (draws st) (whale_shares row) (whale_usd row) = Inr ((True, why), n')"
      by simp
    from should_copy_True [OF this] have w: "why = COPY" "n' = Suc (draws st)" by simp_all
    from assms sc True obtain self' our where
      ex: "execute_trade (eng st) (token_id row) (side row) (whale_shares row) (whale_price row) (whale_usd row) = Inr self'"
      and our: "py_mul (whale_shares row) (scale_ratio self') = Inr our"
      and st': "st' = \<lparr>eng = self', draws = n', execution_log = execution_log st @ [entry_of row our EXECUTED]\<rparr>"
      by (auto simp: process_row_def split: sum.splits)
    have "scale_ratio self' = scale_ratio (eng st)" using execute_trade_fields(3) [OF ex] .
    with our ex st' sc True w show ?thesis by simp
  next
    case False
    with assms sc show ?thesis by (auto simp: process_row_def)
  qed
qed

lemma process_row_total:
  assumes "numeric_row row"
  shows "\<exists>st'. process_row g st row = Inr st'"
proof -
  from assms have n: "is_num (whale_shares row)" "is_num (whale_usd row)" by (simp_all add: numeric_row_def)
  obtain c why n' where sc: "should_copy (eng st) g (draws st) (whale_shares row) (whale_usd row) = Inr ((c, why), n')"
    using should_copy_num [OF n] by blast
  obtain a where a: "py_mul (whale_shares row) (scale_ratio (eng st)) = Inr a" using py_mul_num [OF n(1)] by blast
  obtain b where b: "py_mul (whale_usd row) (scale_ratio (eng st)) = Inr b" using py_mul_num [OF n(2)] by blast
  obtain self' where ex: "execute_trade (eng st) (token_id row) (side row) (whale_shares row) (whale_price row) (whale_usd row) = Inr self'"
    using execute_trade_total [OF a b] by blast
  have "scale_ratio self' = scale_ratio (eng st)" using execute_trade_fields(3) [OF ex] .
  with a have a': "py_mul (whale_shares row) (scale_ratio self') = Inr a" by simp
  show ?thesis by (simp add: process_row_def sc ex a')
qed

lemma run_loop_total:
  "numeric_feed evs \<Longrightarrow> \<exists>st'. run_loop g evs st = Inr st'"
proof (induction evs arbitrary: st)
  case Nil
  then show ?case by simp
next
  case (Cons row rows)
  then have r: "numeric_row row" and rs: "numeric_feed rows" by (simp_all add: numeric_feed_def)
  obtain st1 where st1: "process_row g st row = Inr st1" using process_row_total [OF r] by blast
  with Cons.IH [OF rs, of st1] show ?case by simp
qed

lemma run_loop_append:
  "run_loop g (xs @ ys) st = (case run_loop g xs st of Inl e \<Rightarrow> Inl e | Inr st' \<Rightarrow> run_loop g ys st')"
  by (induction xs arbitrary: st) (auto split: sum.splits)

lemma process_row_counters:
  assumes "process_row g st row = Inr st'"
  shows "(trades_executed (eng st') = Suc (trades_executed (eng st)) \<and> trades_skipped (eng st') = trades_skipped (eng st))
       \<or> (trades_executed (eng st') = trades_executed (eng st) \<and> trades_skipped (eng st') = Suc (trades_skipped (eng st)))"
  using process_row_cases [OF assms] by (auto dest: execute_trade_fields)

lemma run_loop_counters:
  "run_loop g evs st = Inr st' \<Longrightarrow>
     trades_executed (eng st') + trades_skipped (eng st') = trades_executed (eng st) + trades_skipped (eng st) + length evs"
proof (induction evs arbitrary: st)
  case Nil
  then show ?case by simp
next
  case (Cons row rows)
  then obtain st1 where st1: "process_row g st row = Inr st1" and rest: "run_loop g rows st1 = Inr st'"
    by (auto split: sum.splits)
  from process_row_counters [OF st1] Cons.IH [OF rest] show ?case by auto
qed

lemma execute_trade_position:
  assumes "execute_trade self tok sd sh pr usd = Inr self'"
    and "py_mul sh (scale_ratio self) = Inr our"
  shows "get_position self' t =
           (if t = tok
            then (if sd = ''BUY'' then fadd (get_position self t) our else fadd (get_position self t) (fneg our))
            else get_position self t)"
  using assms
  by (auto simp: execute_trade_def Let_def get_position_def fsub_def AList.update_conv'
           split: sum.splits if_splits)

lemma process_row_config:
  assumes "process_row g st row = Inr st'"
  shows "scale_ratio (eng st') = scale_ratio (eng st)"
    and "min_shares (eng st') = min_shares (eng st)"
    and "max_position_usd (eng st') = max_position_usd (eng st)"
    and "copy_probability (eng st') = copy_probability (eng st)"
  using process_row_cases [OF assms] by (auto dest: execute_trade_fields)

lemma display_id_entry: "log_token_id (entry_of row our act) = display_id (token_id row)"
  by (simp add: entry_of_def display_id_def)

lemma process_row_log:
  assumes "process_row g st row = Inr st'"
    and "display_id (token_id row) = display_id tok \<longrightarrow> token_id row = tok"
  shows "\<exists>e. execution_log st' = execution_log st @ [e] \<and> logged (scale_ratio (eng st)) row e
           \<and> get_position (eng st') tok =
               foldl fadd (get_position (eng st) tok) (map signed_copied (filter (executed_for tok) [e]))"
  using process_row_cases [OF assms(1)]
proof (elim disjE exE conjE)
  fix our
  assume our: "py_mul (whale_shares row) (scale_ratio (eng st)) = Inr our"
    and ex: "execute_trade (eng st) (token_id row) (side row) (whale_shares row) (whale_price row) (whale_usd row) = Inr (eng st')"
    and lg: "execution_log st' = execution_log st @ [entry_of row our EXECUTED]"
  have "logged (scale_ratio (eng st)) row (entry_of row our EXECUTED)"
    by (simp add: logged_def entry_of_def our)
  moreover have "get_position (eng st') tok =
      foldl fadd (get_position (eng st) tok)
        (map signed_copied (filter (executed_for tok) [entry_of row our EXECUTED]))"
    using assms(2)
    by (auto simp: execute_trade_position [OF ex our] executed_for_def signed_copied_def
          display_id_entry)
       (simp_all add: entry_of_def)
  ultimately show ?thesis using lg by blast
next
  fix why n'
  assume e: "eng st' = (eng st)\<lparr>trades_skipped := trades_skipped (eng st) + 1\<rparr>"
    and lg: "execution_log st' = execution_log st @ [entry_of row (Fin 0) (REASON why)]"
  have "logged (scale_ratio (eng st)) row (entry_of row (Fin 0) (REASON why))"
    by (simp add: logged_def entry_of_def)
  moreover have "get_position (eng st') tok =
      foldl fadd (get_position (eng st) tok)
        (map signed_copied (filter (executed_for tok) [entry_of row (Fin 0) (REASON why)]))"
    by (simp add: e executed_for_def entry_of_def get_position_def)
  ultimately show ?thesis using lg by blast
qed

lemma run_loop_log:
  "run_loop g evs st = Inr st' \<Longrightarrow> no_name_clash tok evs \<Longrightarrow>
     \<exists>new. execution_log st' = execution_log st @ new
          \<and> list_all2 (logged (scale_ratio (eng st))) evs new
          \<and> get_position (eng st') tok = log_signed_sum tok new (get_position (eng st) tok)"
proof (induction evs arbitrary: st)
  case Nil
  then show ?case by (simp add: log_signed_sum_def)
next
  case (Cons row rows)
  from Cons.prems(1) obtain st1 where st1: "process_row g st row = Inr st1" and rest: "run_loop g rows st1 = Inr st'"
    by (auto split: sum.splits)
  from Cons.prems(2) have c: "display_id (token_id row) = display_id tok \<longrightarrow> token_id row = tok"
    and cs: "no_name_clash tok rows" by (simp_all add: no_name_clash_def)
  from process_row_log [OF st1 c] obtain e where
    e: "execution_log st1 = execution_log st @ [e]" "logged (scale_ratio (eng st)) row e"
       "get_position (eng st1) tok =
          foldl fadd (get_position (eng st) tok) (map signed_copied (filter (executed_for tok) [e]))"
    by blast
  from Cons.IH [OF rest cs] obtain new where
    new: "execution_log st' = execution_log st1 @ new"
         "list_all2 (logged (scale_ratio (eng st1))) rows new"
         "get_position (eng st') tok = log_signed_sum tok new (get_position (eng st1) tok)"
    by blast
  have sr: "scale_ratio (eng st1) = scale_ratio (eng st)" using process_row_config(1) [OF st1] .
  have "execution_log st' = execution_log st @ (e # new)" using e(1) new(1) by simp
  moreover have "list_all2 (logged (scale_ratio (eng st))) (row # rows) (e # new)"
    using e(2) new(2) sr by simp
  moreover have "get_position (eng st') tok = log_signed_sum tok (e # new) (get_position (eng st) tok)"
    using e(3) new(3) by (simp add: log_signed_sum_def)
  ultimately show ?case by blast
qed

lemma run_loop_entries:
  "run_loop g evs st = Inr st' \<Longrightarrow>
     \<exists>new. execution_log st' = execution_log st @ new
          \<and> list_all2 (logged (scale_ratio (eng st))) evs new"
proof (induction evs arbitrary: st)
  case Nil
  then show ?case by simp
next
  case (Cons row rows)
  then obtain st1 where st1: "process_row g st row = Inr st1" and rest: "run_loop g rows st1 = Inr st'"
    by (auto split: sum.splits)
  from process_row_log [OF st1, of "token_id row"] obtain e where
    e: "execution_log st1 = execution_log st @ [e]" "logged (scale_ratio (eng st)) row e"
    by blast
  from Cons.IH [OF rest] obtain new where
    new: "execution_log st' = execution_log st1 @ new"
         "list_all2 (logged (scale_ratio (eng st1))) rows new"
    by blast
  have sr: "scale_ratio (eng st1) = scale_ratio (eng st)" using process_row_config(1) [OF st1] .
  have "execution_log st' = execution_log st @ (e # new)" using e(1) new(1) by simp
  moreover have "list_all2 (logged (scale_ratio (eng st))) (row # rows) (e # new)"
    using e(2) new(2) sr by simp
  ultimately show ?case by blast
qed

lemma numeric_feed_sort: "sorts_by_timestamp srt \<Longrightarrow> numeric_feed df \<Longrightarrow> numeric_feed (srt df)"
  by (simp add: numeric_feed_def list_all_iff sorted_set)

lemma numeric_feed_take: "numeric_feed df \<Longrightarrow> numeric_feed (take k df)"
  by (auto simp: numeric_feed_def list_all_iff dest: in_set_takeD)

lemma no_name_clash_prefix:
  "sorts_by_timestamp srt \<Longrightarrow> no_name_clash tok df \<Longrightarrow> no_name_clash tok (take k (srt df))"
  by (auto simp: no_name_clash_def list_all_iff sorted_set dest!: in_set_takeD)

lemma demo_numeric: "numeric_feed demo_feed"
  by (simp add: demo_defs run_defs)

lemma run_loop_prefix:
  "run_loop g evs st =
     (case run_loop g (take k evs) st of Inl e \<Rightarrow> Inl e | Inr st' \<Rightarrow> run_loop g (drop k evs) st')"
  using run_loop_append [of g "take k evs" "drop k evs" st] by simp

lemma run_loop_config:
  "run_loop g evs st = Inr st' \<Longrightarrow>
     scale_ratio (eng st') = scale_ratio (eng st) \<and> min_shares (eng st') = min_shares (eng st)
     \<and> max_position_usd (eng st') = max_position_usd (eng st)
     \<and> copy_probability (eng st') = copy_probability (eng st)"
proof (induction evs arbitrary: st)
  case Nil
  then show ?case by simp
next
  case (Cons row rows)
  then obtain st1 where st1: "process_row g st row = Inr st1" and rest: "run_loop g rows st1 = Inr st'"
    by (auto split: sum.splits)
  from process_row_config [OF st1] Cons.IH [OF rest] show ?case by simp
qed

lemma should_copy_floats:
  "should_copy self g n (PyFloat s) (PyFloat u) =
     (if flt (fmul s (scale_ratio self)) (min_shares self)
      then Inr ((False, SKIP_min_shares (fmul s (scale_ratio self)) (min_shares self)), n)
      else if fgt (fmul u (scale_ratio self)) (max_position_usd self)
      then Inr ((False, SKIP_max_position (fmul u (scale_ratio self)) (max_position_usd self)), n)
      else if fgt (Fin (g n)) (copy_probability self)
      then Inr ((False, SKIP_probability (fmul (copy_probability self) (Fin 100))), Suc n)
      else Inr ((True, COPY), Suc n))"
  by (simp add: should_copy_def py_mul_def)

lemma fmul_one: "fmul x (Fin 1) = x"
  by (cases x) (simp_all add: inf_times_def)

lemma not_gt_PInf: "\<not> fgt x PInf"
  by (cases x) (simp_all add: fgt_def)

lemma full_copy_should_copy:
  assumes cfg: "scale_ratio self = Fin 1" "min_shares self = Fin 0" "max_position_usd self = PInf"
      "copy_probability self = Fin 1"
    and g: "unit_interval g"
    and row: "nonneg_size row" "is_num (whale_usd row)"
  shows "should_copy self g n (whale_shares row) (whale_usd row) = Inr ((True, COPY), Suc n)"
proof -
  from row(1) obtain s where s: "whale_shares row = PyFloat s" "\<not> flt s (Fin 0)"
    by (auto simp: nonneg_size_def split: pyval.splits)
  from row(2) obtain u where u: "whale_usd row = PyFloat u"
    by (auto simp: is_num_def split: pyval.splits)
  from g have "\<not> fgt (Fin (g n)) (Fin 1)"
    by (simp add: unit_interval_def fgt_def not_less less_imp_le)
  then show ?thesis
    using s u by (simp add: should_copy_floats cfg fmul_one not_gt_PInf)
qed

lemma full_copy_row:
  assumes cfg: "scale_ratio (eng st) = Fin 1" "min_shares (eng st) = Fin 0"
      "max_position_usd (eng st) = PInf" "copy_probability (eng st) = Fin 1"
    and g: "unit_interval g"
    and row: "nonneg_size row" "is_num (whale_usd row)"
  shows "\<exists>st'. process_row g st row = Inr st'
           \<and> trades_executed (eng st') = Suc (trades_executed (eng st))
           \<and> trades_skipped (eng st') = trades_skipped (eng st)"
proof -
  have sc: "should_copy (eng st) g (draws st) (whale_shares row) (whale_usd row) = Inr ((True, COPY), Suc (draws st))"
    using full_copy_should_copy [OF cfg g row] .
  from row(1) have "is_num (whale_shares row)"
    by (auto simp: nonneg_size_def is_num_def split: pyval.splits)
  with row(2) have "numeric_row row" by (simp add: numeric_row_def)
  from process_row_total [OF this] obtain st' where st': "process_row g st row = Inr st'" by blast
  from process_row_cases [OF st'] sc
  have "execute_trade (eng st) (token_id row) (side row) (whale_shares row) (whale_price row) (whale_usd row) = Inr (eng st')"
    by auto
  from execute_trade_fields(1,2) [OF this] st' show ?thesis by blast
qed

lemma full_copy_loop:
  assumes g: "unit_interval g"
  shows "full_copy_feed evs \<Longrightarrow> scale_ratio (eng st) = Fin 1 \<Longrightarrow> min_shares (eng st) = Fin 0 \<Longrightarrow>
      max_position_usd (eng st) = PInf \<Longrightarrow> copy_probability (eng st) = Fin 1 \<Longrightarrow>
      \<exists>st'. run_loop g evs st = Inr st'
           \<and> trades_executed (eng st') = trades_executed (eng st) + length evs
           \<and> trades_skipped (eng st') = trades_skipped (eng st)"
proof (induction evs arbitrary: st)
  case Nil
  then show ?case by simp
next
  case (Cons row rows)
  from Cons.prems(1) have row: "nonneg_size row" "is_num (whale_usd row)" and rows: "full_copy_feed rows"
    by (simp_all add: full_copy_feed_def)
  from full_copy_row [OF Cons.prems(2-5) g row] obtain st1 where
    st1: "process_row g st row = Inr st1" "trades_executed (eng st1) = Suc (trades_executed (eng st))"
      "trades_skipped (eng st1) = trades_skipped (eng st)" by blast
  have cfg1: "scale_ratio (eng st1) = Fin 1" "min_shares (eng st1) = Fin 0"
      "max_position_usd (eng st1) = PInf" "copy_probability (eng st1) = Fin 1"
    using process_row_config [OF st1(1)] Cons.prems(2-5) by simp_all
  from Cons.IH [OF rows cfg1] obtain st' where
    "run_loop g rows st1 = Inr st'" "trades_executed (eng st') = trades_executed (eng st1) + length rows"
    "trades_skipped (eng st') = trades_skipped (eng st1)" by blast
  with st1 show ?case by simp
qed

lemma half_unit: "unit_interval half"
  by (simp add: unit_interval_def half_def)

lemma last20_spec: "last20 xs = spec_log_tail 20 xs"
  by (simp add: last20_def spec_log_tail_def rev_take)

lemma execution_rate_guarded:
  "execution_rate e l = Inr (if l > 0 then real e / real l * 100 else 0)"
  by (simp add: execution_rate_def py_truediv_def)

lemma summary_Inr:
  "\<exists>res. summary len st = Inr res
       \<and> res_total_whale_trades res = len
       \<and> res_trades_executed res = trades_executed (eng st)
       \<and> res_trades_skipped res = trades_skipped (eng st)
       \<and> res_strategy_params res =
           (scale_ratio (eng st), min_shares (eng st), max_position_usd (eng st), copy_probability (eng st))
       \<and> res_execution_log res = last20 (execution_log st)"
  by (simp add: summary_def Let_def execution_rate_guarded)

lemma run_backtest_of_loop:
  "run_loop g (srt feed) (start self n) = Inr st' \<Longrightarrow>
     run_backtest srt self g n feed = summary (length (srt feed)) st'"
  by (simp add: run_backtest_def)

lemma run_backtest_numeric:
  assumes "sorts_by_timestamp srt" and "numeric_feed feed"
  shows "\<exists>st' res. run_loop g (srt feed) (start self n) = Inr st'
           \<and> summary (length feed) st' = Inr res
           \<and> run_backtest srt self g n feed = Inr res"
proof -
  from run_loop_total [OF numeric_feed_sort [OF assms]] obtain st' where
    st': "run_loop g (srt feed) (start self n) = Inr st'" by blast
  from summary_Inr [of "length feed" st'] obtain res where "summary (length feed) st' = Inr res"
    by blast
  with st' show ?thesis
    by (auto simp: run_backtest_of_loop sorted_length [OF assms(1)])
qed

lemma py_mul_error: "py_mul v r = Inl e \<Longrightarrow> e = TypeError"
  by (cases v) (simp_all add: py_mul_def)

lemma should_copy_error: "should_copy self g n sh usd = Inl e \<Longrightarrow> e = TypeError"
  by (auto simp: should_copy_def split: sum.splits if_splits dest: py_mul_error)

lemma execute_trade_error: "execute_trade self tok sd sh pr usd = Inl e \<Longrightarrow> e = TypeError"
  by (auto simp: execute_trade_def Let_def split: sum.splits dest: py_mul_error)

lemma process_row_error: "process_row g st row = Inl e \<Longrightarrow> e = TypeError"
  by (auto simp: process_row_def split: sum.splits if_splits prod.splits
           dest: py_mul_error should_copy_error execute_trade_error)

lemma process_row_bad_size: "\<not> is_num (whale_shares row) \<Longrightarrow> process_row g st row = Inl TypeError"
  by (simp add: process_row_def should_copy_def py_mul_not_num)

lemma run_loop_bad_size:
  "\<exists>row \<in> set evs. \<not> is_num (whale_shares row) \<Longrightarrow> run_loop g evs st = Inl TypeError"
proof (induction evs arbitrary: st)
  case Nil
  then show ?case by simp
next
  case (Cons row rows)
  show ?case
  proof (cases "process_row g st row")
    case (Inl e)
    with process_row_error [OF Inl] show ?thesis by simp
  next
    case (Inr st1)
    have "is_num (whale_shares row)"
      using process_row_bad_size [of row g st] Inr by auto
    with Cons.prems have "\<exists>r \<in> set rows. \<not> is_num (whale_shares r)" by auto
    from Cons.IH [OF this] Inr show ?thesis by simp
  qed
qed

lemma zero_probability_row:
  assumes "copy_probability (eng st) = Fin 0" and "0 < g (draws st)"
    and "process_row g st row = Inr st'"
  shows "trades_executed (eng st') = trades_executed (eng st)"
  using process_row_cases [OF assms(3)] assms(1,2)
  by (auto simp: should_copy_def fgt_def split: sum.splits if_splits)

lemma zero_probability_loop:
  assumes "positive_samples g"
  shows "copy_probability (eng st) = Fin 0 \<Longrightarrow> run_loop g evs st = Inr st' \<Longrightarrow>
           trades_executed (eng st') = trades_executed (eng st)"
proof (induction evs arbitrary: st)
  case Nil
  then show ?case by simp
next
  case (Cons row rows)
  from Cons.prems(2) obtain st1 where st1: "process_row g st row = Inr st1" and rest: "run_loop g rows st1 = Inr st'"
    by (auto split: sum.splits)
  from assms have "0 < g (draws st)" by (simp add: positive_samples_def)
  from zero_probability_row [OF Cons.prems(1) this st1]
  have e: "trades_executed (eng st1) = trades_executed (eng st)" .
  have "copy_probability (eng st1) = Fin 0" using process_row_config(4) [OF st1] Cons.prems(1) by simp
  from Cons.IH [OF this rest] e show ?case by simp
qed

lemma half_positive: "positive_samples half"
  by (simp add: positive_samples_def half_def)

lemma run_backtest_Inr:
  "run_backtest srt self g n feed = Inr res \<Longrightarrow>
     \<exists>st'. run_loop g (srt feed) (start self n) = Inr st' \<and> summary (length (srt feed)) st' = Inr res"
  by (auto simp: run_backtest_def Let_def split: sum.splits)

lemma feed21_numeric: "numeric_feed feed21"
  by (simp add: feed21_def five_small_def buy_B_small_def run_defs)

lemma feed21_length: "length feed21 = 21"
  by (simp add: feed21_def five_small_def)

lemma last20_of_21: "length xs = 21 \<Longrightarrow> length (last20 xs) = 20"
  by (simp add: last20_def)

lemma tail_of_21:
  assumes "sorts_by_timestamp srt"
  shows "\<exists>res. run_backtest srt self g n feed21 = Inr res
           \<and> res_total_whale_trades res = 21 \<and> length (res_execution_log res) = 20"
proof -
  from run_backtest_numeric [OF assms feed21_numeric] obtain st' res where
    st': "run_loop g (srt feed21) (start self n) = Inr st'"
      "summary (length feed21) st' = Inr res"
      "run_backtest srt self g n feed21 = Inr res"
    by blast
  from run_loop_entries [OF st'(1)] obtain new where
    new: "execution_log st' = execution_log (start self n) @ new"
      "list_all2 (logged (scale_ratio (eng (start self n)))) (srt feed21) new" by blast
  from new(2) have "length new = length (srt feed21)" by (simp add: list_all2_lengthD)
  with new(1) have "length (execution_log st') = 21"
    by (simp add: start_def sorted_length [OF assms] feed21_length)
  from last20_of_21 [OF this] summary_Inr [of "length feed21" st'] st'(2)
  have "res_total_whale_trades res = 21 \<and> length (res_execution_log res) = 20"
    by (auto simp: feed21_length)
  with st'(3) show ?thesis by blast
qed

section \<open>The claims\<close>

text \<open>
  C1. After any prefix of the sorted table has been processed by a fresh engine, whatever its
  configuration and whatever the sort does with equal timestamps,
  \<open>trades_executed + trades_skipped\<close> is the number of rows processed so far: the loop over
  the first \<open>k\<close> rows, when it completes, leaves the sum at \<open>min k (length feed)\<close>; it does
  complete when the sizes and USD values are numbers; and one row increments exactly one of
  the two counters by one.
\<close>

theorem counters_count_processed_events:
  assumes "sorts_by_timestamp srt"
  shows "(numeric_feed feed \<longrightarrow>
      (\<exists>st'. run_loop g (take k (srt feed)) (start (BacktestEngine_init sr ms mp cp) n) = Inr st'))
   \<and> (\<forall>st'. run_loop g (take k (srt feed)) (start (BacktestEngine_init sr ms mp cp) n) = Inr st' \<longrightarrow>
         trades_executed (eng st') + trades_skipped (eng st') = min k (length feed))
   \<and> (\<forall>st row st1. process_row g st row = Inr st1 \<longrightarrow>
         (trades_executed (eng st1) = Suc (trades_executed (eng st))
            \<and> trades_skipped (eng st1) = trades_skipped (eng st))
       \<or> (trades_executed (eng st1) = trades_executed (eng st)
            \<and> trades_skipped (eng st1) = Suc (trades_skipped (eng st))))"
proof (intro conjI impI allI)
  assume "numeric_feed feed"
  from numeric_feed_take [OF numeric_feed_sort [OF assms(1) this]]
  have "numeric_feed (take k (srt feed))" .
  then show "\<exists>st'. run_loop g (take k (srt feed)) (start (BacktestEngine_init sr ms mp cp) n) = Inr st'"
    by (rule run_loop_total)
next
  fix st'
  assume "run_loop g (take k (srt feed)) (start (BacktestEngine_init sr ms mp cp) n) = Inr st'"
  from run_loop_counters [OF this]
  show "trades_executed (eng st') + trades_skipped (eng st') = min k (length feed)"
    by (simp add: start_def BacktestEngine_init_def sorted_length [OF assms] min.commute)
next
  fix st row st1
  assume "process_row g st row = Inr st1"
  then show "(trades_executed (eng st1) = Suc (trades_executed (eng st))
            \<and> trades_skipped (eng st1) = trades_skipped (eng st))
       \<or> (trades_executed (eng st1) = trades_executed (eng st)
            \<and> trades_skipped (eng st1) = Suc (trades_skipped (eng st)))"
    by (rule process_row_counters)
qed

text \<open>
  The theorem at the three-row sample table, stopped after two rows.
\<close>

theorem counters_count_processed_events_witness:
  "sorts_by_timestamp stable_sort \<and> numeric_feed demo_feed
   \<and> (\<exists>st'. run_loop half (take 2 (stable_sort demo_feed)) (start default_engine 0) = Inr st'
         \<and> trades_executed (eng st') = 1 \<and> trades_skipped (eng st') = 1
         \<and> trades_executed (eng st') + trades_skipped (eng st') = min 2 (length demo_feed))"
proof -
  have run: "\<exists>st'. run_loop half (take 2 (stable_sort demo_feed)) (start default_engine 0) = Inr st'
               \<and> trades_executed (eng st') = 1 \<and> trades_skipped (eng st') = 1"
    by (simp add: demo_defs run_defs)
  then obtain st' where st': "run_loop half (take 2 (stable_sort demo_feed)) (start default_engine 0) = Inr st'"
    "trades_executed (eng st') = 1" "trades_skipped (eng st') = 1" by blast
  from counters_count_processed_events [OF stable_sort_sorts, of demo_feed half 2 "Fin 1" "Fin 10" "Fin 1000" "Fin 1" 0] st'(1)
  have "trades_executed (eng st') + trades_skipped (eng st') = min 2 (length demo_feed)"
    by (simp add: default_engine_def)
  with st' demo_numeric stable_sort_sorts show ?thesis by blast
qed

text \<open>
  C2 fails on the code as it is worded: the log records a token by its first 20 characters,
  so the executed entries recorded for a token may come from another one. After a BUY of 100
  of one token and a BUY of 30 of a token with the same first 20 characters, the position of
  the first is 100 and the signed sum over the log's entries for it is 130.
\<close>

theorem log_names_collide:
  "case run_loop half (stable_sort [buy_long1, buy_long2]) (start default_engine 0) of
     Inl e \<Rightarrow> False
   | Inr st \<Rightarrow> get_position (eng st) ''AAAAAAAAAAAAAAAAAAAA1'' = Fin 100
               \<and> log_signed_sum ''AAAAAAAAAAAAAAAAAAAA1'' (execution_log st) (Fin 0) = Fin 130"
  by (simp add: buy_long1_def buy_long2_def half_def log_signed_sum_def executed_for_def
        display_id_def signed_copied_def run_defs)

text \<open>
  C2, amended. For a token whose name in the log is shared by no other token of the table,
  after any prefix of the run of a fresh engine the position \<open>positions.get(tok, 0)\<close> is the
  signed sum, from 0 and in log order, of the copied shares of the executed log entries
  recorded for it (BUY added, any other side subtracted); every log entry carries the fields
  of its row, and an executed entry has as copied shares \<open>whale_shares * scale_ratio\<close>.
\<close>

theorem net_shares_signed_sum:
  assumes "sorts_by_timestamp srt" and "no_name_clash tok feed"
  shows "(numeric_feed feed \<longrightarrow>
      (\<exists>st'. run_loop g (take k (srt feed)) (start (BacktestEngine_init sr ms mp cp) n) = Inr st'))
   \<and> (\<forall>st'. run_loop g (take k (srt feed)) (start (BacktestEngine_init sr ms mp cp) n) = Inr st' \<longrightarrow>
         get_position (eng st') tok = log_signed_sum tok (execution_log st') (Fin 0)
         \<and> list_all2 (logged sr) (take k (srt feed)) (execution_log st'))"
proof (intro conjI impI allI)
  assume "numeric_feed feed"
  from numeric_feed_take [OF numeric_feed_sort [OF assms(1) this]]
  have "numeric_feed (take k (srt feed))" .
  then show "\<exists>st'. run_loop g (take k (srt feed)) (start (BacktestEngine_init sr ms mp cp) n) = Inr st'"
    by (rule run_loop_total)
next
  fix st'
  assume run: "run_loop g (take k (srt feed)) (start (BacktestEngine_init sr ms mp cp) n) = Inr st'"
  from run_loop_log [OF run no_name_clash_prefix [OF assms]] obtain new where
    new: "execution_log st' = execution_log (start (BacktestEngine_init sr ms mp cp) n) @ new"
         "list_all2 (logged (scale_ratio (eng (start (BacktestEngine_init sr ms mp cp) n)))) (take k (srt feed)) new"
         "get_position (eng st') tok =
            log_signed_sum tok new (get_position (eng (start (BacktestEngine_init sr ms mp cp) n)) tok)"
    by blast
  from new(1) have lg: "new = execution_log st'" by (simp add: start_def)
  from new(3) show "get_position (eng st') tok = log_signed_sum tok (execution_log st') (Fin 0)"
    by (simp add: lg start_def BacktestEngine_init_def get_position_def)
  from new(2) show "list_all2 (logged sr) (take k (srt feed)) (execution_log st')"
    by (simp add: lg start_def BacktestEngine_init_def)
qed

text \<open>
  The theorem at the sample table: 100 bought, 40 sold, position 60.
\<close>

theorem net_shares_signed_sum_witness:
  "sorts_by_timestamp stable_sort \<and> no_name_clash ''A'' demo_feed \<and> numeric_feed demo_feed
   \<and> (\<exists>st'. run_loop half (take 3 (stable_sort demo_feed)) (start default_engine 0) = Inr st'
         \<and> get_position (eng st') ''A'' = Fin 60
         \<and> log_signed_sum ''A'' (execution_log st') (Fin 0) = Fin 60
         \<and> list_all2 (logged (Fin 1)) (take 3 (stable_sort demo_feed)) (execution_log st'))"
proof -
  have c: "no_name_clash ''A'' demo_feed"
    by (simp add: no_name_clash_def display_id_def demo_defs)
  have run: "\<exists>st'. run_loop half (take 3 (stable_sort demo_feed)) (start default_engine 0) = Inr st'
               \<and> get_position (eng st') ''A'' = Fin 60"
    by (simp add: demo_defs run_defs)
  then obtain st' where st': "run_loop half (take 3 (stable_sort demo_feed)) (start default_engine 0) = Inr st'"
    "get_position (eng st') ''A'' = Fin 60" by blast
  from net_shares_signed_sum [OF stable_sort_sorts c, of half 3 "Fin 1" "Fin 10" "Fin 1000" "Fin 1" 0] st'(1)
  have "get_position (eng st') ''A'' = log_signed_sum ''A'' (execution_log st') (Fin 0)
        \<and> list_all2 (logged (Fin 1)) (take 3 (stable_sort demo_feed)) (execution_log st')"
    by (simp add: default_engine_def)
  with st' demo_numeric stable_sort_sorts c show ?thesis by auto
qed


text \<open>
  C4 fails on the code: a row whose size is missing (NaN) is not rejected. No comparison with
  NaN holds, so the row passes both size rules, a sample is drawn, and the row is executed:
  of the three rows of the table all three are executed and none is skipped.
\<close>

theorem missing_size_executed:
  "whale_shares nan_size = PyFloat NaN
   \<and> (case run_backtest stable_sort default_engine half 0 [buy_A, nan_size, sell_A] of
        Inl e \<Rightarrow> False
      | Inr res \<Rightarrow> res_total_whale_trades res = 3 \<and> res_trades_executed res = 3
                  \<and> res_trades_skipped res = 0)"
  by (simp add: nan_size_def buy_A_def sell_A_def half_def run_defs)

text \<open>
  C4, amended. The engine has no outcome for malformed rows and no check for them. A missing
  size (NaN) is never rejected by the first rule: the row is decided by the second rule and
  the sample like any other, and a missing USD value never exceeds \<open>max_position_usd\<close>. A size
  that is not a number at all (text, or \<open>None\<close>) makes the iteration raise \<open>TypeError\<close>, and a
  table that holds such a row makes \<open>run_backtest\<close> raise it and return no result.
\<close>

theorem no_malformed_outcome:
  "should_copy self g n (PyFloat NaN) (PyFloat u) =
     (if fgt (fmul u (scale_ratio self)) (max_position_usd self)
      then Inr ((False, SKIP_max_position (fmul u (scale_ratio self)) (max_position_usd self)), n)
      else if fgt (Fin (g n)) (copy_probability self)
      then Inr ((False, SKIP_probability (fmul (copy_probability self) (Fin 100))), Suc n)
      else Inr ((True, COPY), Suc n))
   \<and> \<not> fgt (fmul NaN (scale_ratio self)) (max_position_usd self)
   \<and> (\<not> is_num (whale_shares row) \<longrightarrow> process_row g st row = Inl TypeError)
   \<and> (sorts_by_timestamp srt \<and> (\<exists>row \<in> set feed. \<not> is_num (whale_shares row)) \<longrightarrow>
         run_backtest srt self g n feed = Inl TypeError)"
proof (intro conjI impI)
  show "should_copy self g n (PyFloat NaN) (PyFloat u) =
     (if fgt (fmul u (scale_ratio self)) (max_position_usd self)
      then Inr ((False, SKIP_max_position (fmul u (scale_ratio self)) (max_position_usd self)), n)
      else if fgt (Fin (g n)) (copy_probability self)
      then Inr ((False, SKIP_probability (fmul (copy_probability self) (Fin 100))), Suc n)
      else Inr ((True, COPY), Suc n))"
    by (simp add: should_copy_floats)
  show "\<not> fgt (fmul NaN (scale_ratio self)) (max_position_usd self)"
    by (cases "max_position_usd self") (simp_all add: fgt_def)
next
  assume "\<not> is_num (whale_shares row)"
  then show "process_row g st row = Inl TypeError" by (rule process_row_bad_size)
next
  assume a: "sorts_by_timestamp srt \<and> (\<exists>row \<in> set feed. \<not> is_num (whale_shares row))"
  then have "\<exists>row \<in> set (srt feed). \<not> is_num (whale_shares row)"
    by (simp add: sorted_set)
  from run_loop_bad_size [OF this] show "run_backtest srt self g n feed = Inl TypeError"
    by (simp add: run_backtest_def)
qed

text \<open>
  The theorem at a row whose size is text.
\<close>

theorem no_malformed_outcome_witness:
  "\<not> is_num (whale_shares text_size) \<and> process_row half (start default_engine 0) text_size = Inl TypeError
   \<and> sorts_by_timestamp stable_sort
   \<and> (\<exists>row \<in> set [buy_A, text_size, sell_A]. \<not> is_num (whale_shares row))
   \<and> run_backtest stable_sort default_engine half 0 [buy_A, text_size, sell_A] = Inl TypeError"
proof -
  have a: "\<not> is_num (whale_shares text_size)" by (simp add: text_size_def is_num_def)
  then have b: "\<exists>row \<in> set [buy_A, text_size, sell_A]. \<not> is_num (whale_shares row)" by simp
  from no_malformed_outcome [of default_engine half 0 "Fin 0" text_size "start default_engine 0"
         stable_sort "[buy_A, text_size, sell_A]"]
       a b stable_sort_sorts
  show ?thesis by blast
qed

text \<open>
  C5 fails on the code: with a negative \<open>scale_ratio\<close>, a negative \<open>min_shares\<close> and a
  \<open>copy_probability\<close> of 2 the engine is built, the run begins and the row is executed,
  leaving a position of -100 shares after a BUY.
\<close>

theorem negative_scale_ratio_runs:
  "config_error (Fin (- 1)) (Fin (- 200)) (Fin 1000) (Fin 2)
   \<and> (case run_backtest stable_sort (BacktestEngine_init (Fin (- 1)) (Fin (- 200)) (Fin 1000) (Fin 2)) half 0 [buy_A] of
        Inl e \<Rightarrow> False
      | Inr res \<Rightarrow> res_total_whale_trades res = 1 \<and> res_trades_executed res = 1
                  \<and> res_positions res = [(''A'', Fin (- 100))])"
  by (simp add: config_error_def buy_A_def half_def run_defs)

text \<open>
  C5, amended. No configuration is rejected: for any four parameters the engine is built, and
  on a table whose sizes and USD values are numbers the run returns a result that echoes the
  parameters and accounts for every row.
\<close>

theorem no_configuration_rejected:
  assumes "sorts_by_timestamp srt" and "numeric_feed feed"
  shows "\<exists>res. run_backtest srt (BacktestEngine_init sr ms mp cp) g n feed = Inr res
           \<and> res_strategy_params res = (sr, ms, mp, cp)
           \<and> res_total_whale_trades res = length feed
           \<and> res_trades_executed res + res_trades_skipped res = length feed"
proof -
  from run_backtest_numeric [OF assms] obtain st' res where
    st': "run_loop g (srt feed) (start (BacktestEngine_init sr ms mp cp) n) = Inr st'"
      "summary (length feed) st' = Inr res"
      "run_backtest srt (BacktestEngine_init sr ms mp cp) g n feed = Inr res"
    by blast
  from run_loop_counters [OF st'(1)]
  have c: "trades_executed (eng st') + trades_skipped (eng st') = length feed"
    by (simp add: start_def BacktestEngine_init_def sorted_length [OF assms(1)])
  have cfg: "scale_ratio (eng st') = sr \<and> min_shares (eng st') = ms
      \<and> max_position_usd (eng st') = mp \<and> copy_probability (eng st') = cp"
    using run_loop_config [OF st'(1)] by (simp add: start_def BacktestEngine_init_def)
  from summary_Inr [of "length feed" st'] st'(2) c cfg
  have "res_strategy_params res = (sr, ms, mp, cp) \<and> res_total_whale_trades res = length feed
      \<and> res_trades_executed res + res_trades_skipped res = length feed" by auto
  with st'(3) show ?thesis by blast
qed

text \<open>
  The theorem at a configuration that the specification calls an error in all four parameters.
\<close>

theorem no_configuration_rejected_witness:
  "sorts_by_timestamp stable_sort \<and> numeric_feed demo_feed
   \<and> config_error (Fin (- 1)) (Fin (- 200)) (Fin (- 1)) (Fin 2)
   \<and> (\<exists>res. run_backtest stable_sort (BacktestEngine_init (Fin (- 1)) (Fin (- 200)) (Fin (- 1)) (Fin 2)) half 0 demo_feed = Inr res
         \<and> res_strategy_params res = (Fin (- 1), Fin (- 200), Fin (- 1), Fin 2)
         \<and> res_total_whale_trades res = length demo_feed
         \<and> res_trades_executed res + res_trades_skipped res = length demo_feed)"
proof -
  have "config_error (Fin (- 1)) (Fin (- 200)) (Fin (- 1)) (Fin 2)"
    by (simp add: config_error_def)
  with no_configuration_rejected [OF stable_sort_sorts demo_numeric, of "Fin (- 1)" "Fin (- 200)" "Fin (- 1)" "Fin 2" half 0]
       demo_numeric stable_sort_sorts
  show ?thesis by blast
qed

text \<open>
  C6 fails on the code at the sample 0.0, a value of \<open>[0, 1)\<close>: with \<open>copy_probability = 0\<close>
  and a row that passes both size rules, the test \<open>0.0 > 0\<close> of the third rule is false, so
  the row is executed.
\<close>

theorem zero_probability_zero_sample_copied:
  "unit_interval zero
   \<and> (case run_backtest stable_sort (BacktestEngine_init (Fin 1) (Fin 10) (Fin 1000) (Fin 0)) zero 0 [buy_A] of
        Inl e \<Rightarrow> False
      | Inr res \<Rightarrow> res_total_whale_trades res = 1 \<and> res_trades_executed res = 1
                  \<and> res_trades_skipped res = 0)"
  by (simp add: unit_interval_def zero_def buy_A_def run_defs)

text \<open>
  C6, amended. With \<open>copy_probability = 0\<close> and every sample above 0, whatever the other
  parameters, a run that returns has executed no trade and skipped every row; and the run
  returns when the sizes and USD values are numbers.
\<close>

theorem zero_probability_positive_samples:
  assumes "sorts_by_timestamp srt" and "positive_samples g"
  shows "(numeric_feed feed \<longrightarrow>
           (\<exists>res. run_backtest srt (BacktestEngine_init sr ms mp (Fin 0)) g n feed = Inr res))
       \<and> (\<forall>res. run_backtest srt (BacktestEngine_init sr ms mp (Fin 0)) g n feed = Inr res \<longrightarrow>
             res_trades_executed res = 0 \<and> res_trades_skipped res = length feed)"
proof (intro conjI impI allI)
  assume "numeric_feed feed"
  from run_backtest_numeric [OF assms(1) this]
  show "\<exists>res. run_backtest srt (BacktestEngine_init sr ms mp (Fin 0)) g n feed = Inr res" by blast
next
  fix res
  assume "run_backtest srt (BacktestEngine_init sr ms mp (Fin 0)) g n feed = Inr res"
  from run_backtest_Inr [OF this] obtain st' where
    st': "run_loop g (srt feed) (start (BacktestEngine_init sr ms mp (Fin 0)) n) = Inr st'"
      "summary (length (srt feed)) st' = Inr res" by blast
  have "copy_probability (eng (start (BacktestEngine_init sr ms mp (Fin 0)) n)) = Fin 0"
    by (simp add: start_def BacktestEngine_init_def)
  from zero_probability_loop [OF assms(2) this st'(1)]
  have e: "trades_executed (eng st') = 0" by (simp add: start_def BacktestEngine_init_def)
  from run_loop_counters [OF st'(1)] e
  have s: "trades_skipped (eng st') = length feed"
    by (simp add: start_def BacktestEngine_init_def sorted_length [OF assms(1)])
  from summary_Inr [of "length (srt feed)" st'] st'(2) e s
  have "res_trades_executed res = 0 \<and> res_trades_skipped res = length feed" by auto
  then show "res_trades_executed res = 0" and "res_trades_skipped res = length feed" by simp_all
qed

text \<open>
  The theorem at the sample table, with the generator that returns 0.5.
\<close>

theorem zero_probability_positive_samples_witness:
  "sorts_by_timestamp stable_sort \<and> positive_samples half \<and> numeric_feed demo_feed
   \<and> (\<exists>res. run_backtest stable_sort (BacktestEngine_init (Fin 1) (Fin 10) (Fin 1000) (Fin 0)) half 0 demo_feed = Inr res
         \<and> res_trades_executed res = 0 \<and> res_trades_skipped res = length demo_feed)"
proof -
  from zero_probability_positive_samples [OF stable_sort_sorts half_positive,
         of demo_feed "Fin 1" "Fin 10" "Fin 1000" 0]
       demo_numeric stable_sort_sorts half_positive
  show ?thesis by blast
qed

text \<open>
  C7 fails on the code for a row of negative size: under the full-copy configuration the first
  rule still finds \<open>-5 < 0\<close> and skips the row.
\<close>

theorem full_copy_skips_negative_size:
  "unit_interval half
   \<and> (case run_backtest stable_sort (BacktestEngine_init (Fin 1) (Fin 0) PInf (Fin 1)) half 0 [negative_size] of
        Inl e \<Rightarrow> False
      | Inr res \<Rightarrow> res_total_whale_trades res = 1 \<and> res_trades_executed res = 0 \<and> res_trades_skipped res = 1)"
  by (simp add: unit_interval_def half_def negative_size_def run_defs)

text \<open>
  C7, amended. Under \<open>scale_ratio = 1\<close>, \<open>min_shares = 0\<close>, \<open>max_position_usd = +inf\<close>,
  \<open>copy_probability = 1\<close>, with samples in \<open>[0, 1)\<close>, a table whose sizes are numbers not below
  0 and whose USD values are numbers is copied in full: every row is executed, none skipped.
\<close>

theorem full_copy_of_nonnegative_sizes:
  assumes "sorts_by_timestamp srt" and "unit_interval g" and "full_copy_feed feed"
  shows "\<exists>res. run_backtest srt (BacktestEngine_init (Fin 1) (Fin 0) PInf (Fin 1)) g n feed = Inr res
           \<and> res_total_whale_trades res = length feed
           \<and> res_trades_executed res = length feed
           \<and> res_trades_skipped res = 0"
proof -
  from assms(3) have "full_copy_feed (srt feed)"
    by (simp add: full_copy_feed_def list_all_iff sorted_set [OF assms(1)])
  from full_copy_loop [OF assms(2) this, of "start (BacktestEngine_init (Fin 1) (Fin 0) PInf (Fin 1)) n"]
  obtain st' where st': "run_loop g (srt feed) (start (BacktestEngine_init (Fin 1) (Fin 0) PInf (Fin 1)) n) = Inr st'"
    "trades_executed (eng st') = length feed" "trades_skipped (eng st') = 0"
    by (auto simp: start_def BacktestEngine_init_def sorted_length [OF assms(1)])
  from summary_Inr [of "length (srt feed)" st'] obtain res where
    res: "summary (length (srt feed)) st' = Inr res" "res_total_whale_trades res = length (srt feed)"
      "res_trades_executed res = trades_executed (eng st')" "res_trades_skipped res = trades_skipped (eng st')"
    by blast
  from run_backtest_of_loop [of g srt feed _ n st'] st'(1) res st'(2,3) show ?thesis
    by (simp add: sorted_length [OF assms(1)])
qed

text \<open>
  The theorem at the sample table.
\<close>

theorem full_copy_of_nonnegative_sizes_witness:
  "sorts_by_timestamp stable_sort \<and> unit_interval half \<and> full_copy_feed demo_feed
   \<and> (\<exists>res. run_backtest stable_sort (BacktestEngine_init (Fin 1) (Fin 0) PInf (Fin 1)) half 0 demo_feed = Inr res
         \<and> res_total_whale_trades res = length demo_feed \<and> res_trades_executed res = length demo_feed
         \<and> res_trades_skipped res = 0)"
proof -
  have f: "full_copy_feed demo_feed"
    by (simp add: full_copy_feed_def nonneg_size_def is_num_def demo_defs)
  from full_copy_of_nonnegative_sizes [OF stable_sort_sorts half_unit f, of 0] half_unit f stable_sort_sorts
  show ?thesis by blast
qed

text \<open>
  C8 fails on the code in two places. The sort promises nothing for equal timestamps: with a
  sort that returns them in reverse, a table of two rows with one timestamp, which is
  ascending, is logged in the other order. And the engine has no option for the length of
  the tail: on the table of 21 rows every engine, with every generator, returns a tail of 20
  entries.
\<close>

theorem ties_reordered_and_tail_fixed:
  "sorts_by_timestamp sort_ties_reversed
   \<and> sorted (map timestamp_ms [buy_A, buy_B_tie])
   \<and> (case run_loop half (sort_ties_reversed [buy_A, buy_B_tie]) (start default_engine 0) of
        Inl e \<Rightarrow> False
      | Inr st \<Rightarrow> map log_token_id (execution_log st) = [''B...'', ''A...''])
   \<and> (\<forall>self g n. \<exists>res. run_backtest stable_sort self g n feed21 = Inr res
          \<and> res_total_whale_trades res = 21 \<and> length (res_execution_log res) = 20)"
proof (intro conjI allI)
  show "sorts_by_timestamp sort_ties_reversed" by (rule sort_ties_reversed_sorts)
  show "sorted (map timestamp_ms [buy_A, buy_B_tie])" by (simp add: buy_A_def buy_B_tie_def)
  show "case run_loop half (sort_ties_reversed [buy_A, buy_B_tie]) (start default_engine 0) of
        Inl e \<Rightarrow> False
      | Inr st \<Rightarrow> map log_token_id (execution_log st) = [''B...'', ''A...'']"
    by (simp add: sort_ties_reversed_def buy_A_def buy_B_tie_def half_def run_defs)
next
  fix self g n
  show "\<exists>res. run_backtest stable_sort self g n feed21 = Inr res
          \<and> res_total_whale_trades res = 21 \<and> length (res_execution_log res) = 20"
    by (rule tail_of_21 [OF stable_sort_sorts])
qed

text \<open>
  C8, amended. For a table with strictly ascending timestamps, any sort and any engine, the
  log of a completed run has one entry per row, in the order of the rows, each with the
  fields of its row; the result is built from that run and its \<open>execution_log\<close> is the last 20
  entries of the log, in order. The 20 is fixed.
\<close>

theorem log_in_input_order_tail_of_20:
  assumes "sorts_by_timestamp srt" and "sorted_wrt (<) (map timestamp_ms feed)"
  shows "(numeric_feed feed \<longrightarrow> (\<exists>res. run_backtest srt self g n feed = Inr res))
       \<and> (\<forall>st'. run_loop g (srt feed) (start self n) = Inr st' \<longrightarrow>
             list_all2 (logged (scale_ratio self)) feed (execution_log st')
             \<and> (\<exists>res. run_backtest srt self g n feed = Inr res
                   \<and> res_total_whale_trades res = length feed
                   \<and> res_execution_log res = spec_log_tail 20 (execution_log st')))"
proof (intro conjI impI allI)
  assume "numeric_feed feed"
  from run_backtest_numeric [OF assms(1) this] show "\<exists>res. run_backtest srt self g n feed = Inr res"
    by blast
next
  fix st'
  assume run: "run_loop g (srt feed) (start self n) = Inr st'"
  have id: "srt feed = feed" using sort_strictly_ascending [OF assms] .
  from run_loop_entries [OF run] obtain new where
    new: "execution_log st' = execution_log (start self n) @ new"
         "list_all2 (logged (scale_ratio (eng (start self n)))) (srt feed) new"
    by blast
  from new(1) have lg: "new = execution_log st'" by (simp add: start_def)
  from new(2) show "list_all2 (logged (scale_ratio self)) feed (execution_log st')"
    by (simp add: lg start_def id)
  from summary_Inr [of "length (srt feed)" st'] obtain res where
    res: "summary (length (srt feed)) st' = Inr res" "res_total_whale_trades res = length (srt feed)"
      "res_execution_log res = last20 (execution_log st')" by blast
  from run have "run_backtest srt self g n feed = summary (length (srt feed)) st'"
    by (simp add: run_backtest_def)
  with res show "\<exists>res. run_backtest srt self g n feed = Inr res
                   \<and> res_total_whale_trades res = length feed
                   \<and> res_execution_log res = spec_log_tail 20 (execution_log st')"
    by (simp add: last20_spec id)
qed

text \<open>
  The theorem at the sample table, with the sort that reverses equal timestamps.
\<close>

theorem log_in_input_order_tail_of_20_witness:
  "sorts_by_timestamp sort_ties_reversed \<and> sorted_wrt (<) (map timestamp_ms demo_feed)
   \<and> numeric_feed demo_feed
   \<and> (\<exists>st'. run_loop half (sort_ties_reversed demo_feed) (start default_engine 0) = Inr st'
         \<and> list_all2 (logged (scale_ratio default_engine)) demo_feed (execution_log st')
         \<and> (\<exists>res. run_backtest sort_ties_reversed default_engine half 0 demo_feed = Inr res
               \<and> res_total_whale_trades res = length demo_feed
               \<and> res_execution_log res = spec_log_tail 20 (execution_log st')))"
proof -
  have s: "sorted_wrt (<) (map timestamp_ms demo_feed)"
    by (simp add: demo_defs)
  from run_loop_total [OF numeric_feed_sort [OF sort_ties_reversed_sorts demo_numeric]] obtain st' where
    st': "run_loop half (sort_ties_reversed demo_feed) (start default_engine 0) = Inr st'" by blast
  from log_in_input_order_tail_of_20 [OF sort_ties_reversed_sorts s, of default_engine half 0]
       st' s demo_numeric sort_ties_reversed_sorts
  show ?thesis by blast
qed

text \<open>
  C9. On the empty table \<open>run_backtest\<close> of a fresh engine, whatever its configuration,
  returns a result and raises nothing: 0 trades, 0 executed, 0 skipped, rate 0, volume 0, no
  positions, an empty log. The rate is 0 by the guard \<open>len(trades_df) > 0\<close>; the division it
  guards would raise \<open>ZeroDivisionError\<close> on this table.
\<close>

theorem empty_feed_all_zero:
  assumes "sorts_by_timestamp srt"
  shows "run_backtest srt (BacktestEngine_init sr ms mp cp) g n [] =
       Inr \<lparr>res_total_whale_trades = 0, res_trades_executed = 0, res_trades_skipped = 0,
            res_execution_rate = 0, res_total_volume_usd = Fin 0, res_open_positions = 0,
            res_positions = [], res_strategy_params = (sr, ms, mp, cp), res_execution_log = []\<rparr>
     \<and> execution_rate 0 (length (srt [])) = Inr 0
     \<and> py_truediv (real 0) (real (length (srt []))) = Inl ZeroDivisionError"
proof -
  from assms have "mset (srt []) = mset ([] :: event list)" by (simp add: sorts_by_timestamp_def)
  then have e: "srt [] = []" by simp
  show ?thesis
    by (simp add: e run_backtest_def start_def summary_def BacktestEngine_init_def execution_rate_def
          py_truediv_def last20_def round_half_even_def)
qed

text \<open>
  The theorem with the stable sort and the default engine.
\<close>

theorem empty_feed_all_zero_witness:
  "sorts_by_timestamp stable_sort
   \<and> run_backtest stable_sort default_engine half 0 [] =
       Inr \<lparr>res_total_whale_trades = 0, res_trades_executed = 0, res_trades_skipped = 0,
            res_execution_rate = 0, res_total_volume_usd = Fin 0, res_open_positions = 0,
            res_positions = [], res_strategy_params = (Fin 1, Fin 10, Fin 1000, Fin 1),
            res_execution_log = []\<rparr>"
  using empty_feed_all_zero [OF stable_sort_sorts, of "Fin 1" "Fin 10" "Fin 1000" "Fin 1" half 0]
    stable_sort_sorts
  by (simp add: default_engine_def)

text \<open>
  C10. \<open>execute_trade\<close> on a row that can be scaled: for the side \<open>BUY\<close>, and only for it, the
  scaled shares are added to the position of the token and a lot is appended; for any other
  side the scaled shares are subtracted, the lots are unchanged, and the outcome is that of
  the side \<open>SELL\<close>.
\<close>

theorem only_BUY_adds_shares:
  assumes "py_mul sh (scale_ratio self) = Inr scaled" and "py_mul usd (scale_ratio self) = Inr scaled_usd"
  shows "\<exists>self'. execute_trade self tok sd sh pr usd = Inr self'
           \<and> (if sd = ''BUY''
               then get_position self' tok = fadd (get_position self tok) scaled
                    \<and> get_lots self' tok = get_lots self tok @ [(scaled, pr)]
               else get_position self' tok = fsub (get_position self tok) scaled
                    \<and> entry_prices self' = entry_prices self
                    \<and> execute_trade self tok sd sh pr usd = execute_trade self tok ''SELL'' sh pr usd)"
  using assms
  by (simp add: execute_trade_def Let_def get_position_def get_lots_def AList.update_conv')

text \<open>
  The theorem at the side \<open>HOLD\<close> and at the side \<open>BUY\<close>.
\<close>

text \<open>
  The theorem at the side \<open>HOLD\<close> and at the side \<open>BUY\<close>.
\<close>

theorem only_BUY_adds_shares_witness:
  "py_mul (PyFloat (Fin 40)) (scale_ratio default_engine) = Inr (Fin 40)
   \<and> py_mul (PyFloat (Fin 24)) (scale_ratio default_engine) = Inr (Fin 24)
   \<and> (\<exists>self'. execute_trade default_engine ''A'' ''HOLD'' (PyFloat (Fin 40)) (PyFloat (Fin (3 / 5))) (PyFloat (Fin 24)) = Inr self'
         \<and> get_position self' ''A'' = Fin (- 40) \<and> entry_prices self' = [])
   \<and> (\<exists>self'. execute_trade default_engine ''A'' ''BUY'' (PyFloat (Fin 40)) (PyFloat (Fin (3 / 5))) (PyFloat (Fin 24)) = Inr self'
         \<and> get_position self' ''A'' = Fin 40 \<and> get_lots self' ''A'' = [(Fin 40, PyFloat (Fin (3 / 5)))])"
proof -
  have a: "py_mul (PyFloat (Fin 40)) (scale_ratio default_engine) = Inr (Fin 40)"
    by (simp add: run_defs)
  have b: "py_mul (PyFloat (Fin 24)) (scale_ratio default_engine) = Inr (Fin 24)"
    by (simp add: run_defs)
  have z: "get_position default_engine ''A'' = Fin 0" "get_lots default_engine ''A'' = []"
    "entry_prices default_engine = []"
    by (simp_all add: run_defs)
  from only_BUY_adds_shares [OF a b, of "''A''" "''HOLD''" "PyFloat (Fin (3 / 5))"]
       only_BUY_adds_shares [OF a b, of "''A''" "''BUY''" "PyFloat (Fin (3 / 5))"]
  show ?thesis using a b z by (auto simp: fsub_def)
qed

end
